theory Spec2Isabelle
  imports Complex_Main "HOL-Library.Sublist"
begin

section \<open>Values that cross the socket\<close>

text \<open>
  The message handler of \<^verbatim>\<open>extension.ts\<close> receives whatever \<^verbatim>\<open>JSON.parse\<close> returns
  (its parameter is typed \<^verbatim>\<open>any\<close>), so inbound messages are modelled as JavaScript
  values. A number is an IEEE double: the finite ones are rationals, and the signed
  zero, the infinities and NaN are kept apart because truthiness tells them apart.
\<close>

datatype number = Finite rat | NegZero | PosInfinity | NegInfinity | NaN

datatype jsval =
    JUndefined
  | JNull
  | JBool bool
  | JNum number
  | JStr string
  | JArr "jsval list"
  | JObj "(string \<times> jsval) list"

datatype js_error = TypeError | SyntaxError

text \<open>JavaScript truthiness, as used by the \<^verbatim>\<open>||\<close> operator.\<close>

fun truthy :: "jsval \<Rightarrow> bool" where
  "truthy JUndefined = False"
| "truthy JNull = False"
| "truthy (JBool b) = b"
| "truthy (JNum (Finite r)) = (r \<noteq> 0)"
| "truthy (JNum NegZero) = False"
| "truthy (JNum PosInfinity) = True"
| "truthy (JNum NegInfinity) = True"
| "truthy (JNum NaN) = False"
| "truthy (JStr s) = (s \<noteq> [])"
| "truthy (JArr xs) = True"
| "truthy (JObj kvs) = True"

text \<open>
  The property read \<^verbatim>\<open>v.k\<close>, for the keys the handler reads (\<^verbatim>\<open>type\<close>, \<^verbatim>\<open>error\<close>,
  \<^verbatim>\<open>suggestions\<close>): none of them is defined on a built-in prototype, so a primitive,
  an array, or an object without that own property yields \<^verbatim>\<open>undefined\<close>, and reading
  a property of \<^verbatim>\<open>null\<close> or \<^verbatim>\<open>undefined\<close> throws a TypeError. An object is the list
  of its own properties, each key once; a lookup takes the first entry for the key.
\<close>

fun get_prop :: "jsval \<Rightarrow> string \<Rightarrow> js_error + jsval" where
  "get_prop JUndefined k = Inl TypeError"
| "get_prop JNull k = Inl TypeError"
| "get_prop (JObj kvs) k = Inr (case map_of kvs k of None \<Rightarrow> JUndefined | Some v \<Rightarrow> v)"
| "get_prop v k = Inr JUndefined"

text \<open>\<^verbatim>\<open>a || b\<close> on values.\<close>

definition js_or :: "jsval \<Rightarrow> jsval \<Rightarrow> jsval" where
  "js_or a b = (if truthy a then a else b)"

section \<open>Records of the extension\<close>

record ErrorContext =
  error_type :: string
  error_message :: string
  file_path :: string
  line_number :: number
  severity :: string
  timestamp :: string

record FixSuggestion =
  title :: string
  description :: string
  code_snippet :: string
  confidence_score :: number
  agent_source :: string
  explanation :: "string option"

text \<open>
  The object literals handed to \<^verbatim>\<open>JSON.stringify\<close> before \<^verbatim>\<open>ws.send\<close>:
  \<^verbatim>\<open>{type: 'start_system'}\<close>, \<^verbatim>\<open>{type: 'stop_system'}\<close>,
  \<^verbatim>\<open>{type: 'apply_fix', suggestion}\<close> and \<^verbatim>\<open>{type: 'analyze_error', file, line}\<close>.
\<close>

datatype payload =
    StartSystemMsg
  | StopSystemMsg
  | ApplyFixMsg FixSuggestion
  | AnalyzeErrorMsg string nat

text \<open>What an operation does to the host and to the socket, in program order.\<close>

datatype effect =
    NewWebSocket string
  | WsOn string
  | WsSend payload
  | WsClose
  | ShowInformationMessage string
  | ShowWarningMessage string
  | ShowErrorMessage string
  | ConsoleError string
  | Fire
  | CreateWebviewPanel string string
  | SetWebviewHtml string

fun is_write :: "effect \<Rightarrow> bool" where
  "is_write (WsSend p) = True"
| "is_write e = False"

fun is_notice :: "effect \<Rightarrow> bool" where
  "is_notice (ShowInformationMessage m) = True"
| "is_notice (ShowWarningMessage m) = True"
| "is_notice (ShowErrorMessage m) = True"
| "is_notice e = False"

definition writes :: "effect list \<Rightarrow> nat" where
  "writes es = length (filter is_write es)"

definition notices :: "effect list \<Rightarrow> nat" where
  "notices es = length (filter is_notice es)"

text \<open>
  The fields of \<^verbatim>\<open>BugfreeProvider\<close>. \<^verbatim>\<open>currentErrors\<close> is an array that is only ever
  pushed to; \<^verbatim>\<open>currentSuggestions\<close> is assigned \<^verbatim>\<open>message.suggestions || []\<close>, which
  is whatever truthy value the message carries, so it is a value, not a list.
  \<^verbatim>\<open>ws\<close> records whether the handle is non-null.
\<close>

record provider =
  currentErrors :: "jsval list"
  currentSuggestions :: jsval
  ws :: bool
  isConnected :: bool

type_synonym outcome = "effect list \<times> provider"

section \<open>Inbound messages\<close>

definition refresh :: "provider \<Rightarrow> outcome" where
  "refresh s = ([Fire], s)"

text \<open>
  \<^verbatim>\<open>handleBugfreeMessage\<close>. The first property read throws on \<^verbatim>\<open>null\<close>, before
  anything is written.
\<close>

definition handleBugfreeMessage :: "provider \<Rightarrow> jsval \<Rightarrow> js_error + outcome" where
  "handleBugfreeMessage s message =
     (case get_prop message ''type'' of
        Inl e \<Rightarrow> Inl e
      | Inr t \<Rightarrow>
          if t = JStr ''error_detected'' then
            (case get_prop message ''error'' of
               Inl e \<Rightarrow> Inl e
             | Inr v \<Rightarrow> Inr (refresh (s\<lparr>currentErrors := currentErrors s @ [v]\<rparr>)))
          else if t = JStr ''suggestions_ready'' then
            (case get_prop message ''suggestions'' of
               Inl e \<Rightarrow> Inl e
             | Inr v \<Rightarrow> Inr (refresh (s\<lparr>currentSuggestions := js_or v (JArr [])\<rparr>)))
          else Inr ([], s))"

text \<open>
  The \<^verbatim>\<open>message\<close> listener. \<^verbatim>\<open>JSON.parse\<close> belongs to the runtime and is a parameter:
  \<open>None\<close> is the SyntaxError it throws. The \<^verbatim>\<open>try\<close> encloses both the parse and the
  call of the handler; the \<^verbatim>\<open>catch\<close> logs.
\<close>

definition try_catch :: "js_error + 'a \<Rightarrow> (js_error \<Rightarrow> js_error + 'a) \<Rightarrow> js_error + 'a" where
  "try_catch body handler = (case body of Inl e \<Rightarrow> handler e | Inr r \<Rightarrow> Inr r)"

definition onMessage :: "(string \<Rightarrow> jsval option) \<Rightarrow> provider \<Rightarrow> string \<Rightarrow> js_error + outcome" where
  "onMessage JSON_parse s data =
     try_catch
       (case JSON_parse data of
          None \<Rightarrow> Inl SyntaxError
        | Some message \<Rightarrow> handleBugfreeMessage s message)
       (\<lambda>error. Inr ([ConsoleError ''Error parsing Bugfree message:''], s))"

section \<open>The connection\<close>

text \<open>
  The settings read by \<^verbatim>\<open>connectToBugfree\<close>; \<open>None\<close> is a setting without a value,
  for which \<^verbatim>\<open>config.get(key, default)\<close> returns the default.
\<close>

record config =
  serverHost :: "string option"
  serverPort :: "number option"

definition config_get :: "'a option \<Rightarrow> 'a \<Rightarrow> 'a" where
  "config_get setting dflt = (case setting of None \<Rightarrow> dflt | Some v \<Rightarrow> v)"

text \<open>
  \<^verbatim>\<open>connectToBugfree\<close> of \<^verbatim>\<open>src/extension.ts\<close>. The conversion of the port number
  inside the template literal and the cases in which the \<^verbatim>\<open>WebSocket\<close> constructor
  throws belong to the runtime and are parameters. A throwing constructor leaves
  \<^verbatim>\<open>this.ws\<close> as it was and is logged by the outer \<^verbatim>\<open>catch\<close>.
\<close>

definition connectToBugfree ::
  "(number \<Rightarrow> string) \<Rightarrow> (string \<Rightarrow> bool) \<Rightarrow> config \<Rightarrow> provider \<Rightarrow> outcome" where
  "connectToBugfree Number_toString WebSocket_throws cfg s =
     (let host = config_get (serverHost cfg) ''localhost'';
          port = config_get (serverPort cfg) (Finite 8003);
          url = ''ws://'' @ host @ '':'' @ Number_toString port
      in if WebSocket_throws url
         then ([NewWebSocket url, ConsoleError ''Error connecting to Bugfree:''], s)
         else ([NewWebSocket url, WsOn ''open'', WsOn ''message'', WsOn ''close'', WsOn ''error''],
               s\<lparr>ws := True\<rparr>))"

text \<open>
  The same method in the compiled \<^verbatim>\<open>out/extension.js\<close>. The four listeners it
  registers have the bodies of the source's listeners, without the type annotations.
\<close>

definition connectToBugfree_out ::
  "(number \<Rightarrow> string) \<Rightarrow> (string \<Rightarrow> bool) \<Rightarrow> config \<Rightarrow> provider \<Rightarrow> outcome" where
  "connectToBugfree_out Number_toString WebSocket_throws cfg s =
     (let host = config_get (serverHost cfg) ''localhost'';
          port = config_get (serverPort cfg) (Finite 8000);
          url = ''ws://'' @ host @ '':'' @ Number_toString port
      in if WebSocket_throws url
         then ([NewWebSocket url, ConsoleError ''Error connecting to Bugfree:''], s)
         else ([NewWebSocket url, WsOn ''open'', WsOn ''message'', WsOn ''close'', WsOn ''error''],
               s\<lparr>ws := True\<rparr>))"

text \<open>The field initialisers of the class, before the constructor body runs.\<close>

definition initial :: provider where
  "initial = \<lparr>currentErrors = [], currentSuggestions = JArr [], ws = False, isConnected = False\<rparr>"

text \<open>The \<^verbatim>\<open>open\<close>, \<^verbatim>\<open>close\<close> and \<^verbatim>\<open>error\<close> listeners.\<close>

definition onOpen :: "provider \<Rightarrow> outcome" where
  "onOpen s =
     (let s1 = s\<lparr>isConnected := True\<rparr>;
          (es, s2) = refresh s1
      in (ShowInformationMessage ''Connected to Bugfree system'' # es, s2))"

definition onClose :: "provider \<Rightarrow> outcome" where
  "onClose s =
     (let s1 = s\<lparr>isConnected := False\<rparr>;
          (es, s2) = refresh s1
      in (ShowWarningMessage ''Disconnected from Bugfree system'' # es, s2))"

definition onError :: "provider \<Rightarrow> outcome" where
  "onError s =
     ([ConsoleError ''WebSocket error:'',
       ShowErrorMessage ''Failed to connect to Bugfree system''], s)"

section \<open>Outbound actions\<close>

definition startSystem :: "provider \<Rightarrow> outcome" where
  "startSystem s =
     (if ws s \<and> isConnected s
      then ([WsSend StartSystemMsg, ShowInformationMessage ''Starting Bugfree system...''], s)
      else ([ShowErrorMessage ''Not connected to Bugfree system''], s))"

definition stopSystem :: "provider \<Rightarrow> outcome" where
  "stopSystem s =
     (if ws s \<and> isConnected s
      then ([WsSend StopSystemMsg, ShowInformationMessage ''Stopping Bugfree system...''], s)
      else ([], s))"

definition applyFix :: "provider \<Rightarrow> FixSuggestion \<Rightarrow> outcome" where
  "applyFix s suggestion =
     (if ws s \<and> isConnected s
      then ([WsSend (ApplyFixMsg suggestion),
             ShowInformationMessage (''Applying fix: '' @ title suggestion)], s)
      else ([], s))"

definition dispose :: "provider \<Rightarrow> outcome" where
  "dispose s = (if ws s then ([WsClose], s) else ([], s))"

section \<open>Document views\<close>

text \<open>One line of a template literal: its indentation, its text and the line break.\<close>

definition ind :: "nat \<Rightarrow> string \<Rightarrow> string" where
  "ind n t = replicate n CHR '' '' @ t @ [CHR 0x0A]"

text \<open>\<^verbatim>\<open>suggestion.explanation || 'No explanation available'\<close>: the empty string is falsy.\<close>

definition explanation_text :: "FixSuggestion \<Rightarrow> string" where
  "explanation_text suggestion =
     (case explanation suggestion of
        None \<Rightarrow> ''No explanation available''
      | Some e \<Rightarrow> if e = [] then ''No explanation available'' else e)"

definition explain_head :: "FixSuggestion \<Rightarrow> string" where
  \<open>explain_head suggestion =
     [CHR 0x0A] @ concat
       [ind 12 ''<!DOCTYPE html>'',
        ind 12 ''<html>'',
        ind 12 ''<head>'',
        ind 16 ''<meta charset="UTF-8">'',
        ind 16 ''<meta name="viewport" content="width=device-width, initial-scale=1.0">'',
        ind 16 ''<title>Fix Explanation</title>'',
        ind 16 ''<style>'',
        ind 20 ''body { font-family: -apple-system, BlinkMacSystemFont, 'Segoe UI', sans-serif; padding: 20px; }'',
        ind 20 ''.title { font-size: 18px; font-weight: bold; margin-bottom: 10px; }'',
        ind 20 ''.description { margin-bottom: 15px; color: #666; }'',
        ind 20 ''.code { background: #f5f5f5; padding: 10px; border-radius: 4px; font-family: 'Courier New', monospace; }'',
        ind 20 ''.explanation { margin-top: 15px; }'',
        ind 20 ''.agent { color: #007acc; font-weight: bold; }'',
        ind 20 ''.confidence { color: #28a745; font-weight: bold; }'',
        ind 16 ''</style>'',
        ind 12 ''</head>'',
        ind 12 ''<body>'',
        ind 16 (''<div class="title">'' @ title suggestion @ ''</div>''),
        ind 16 (''<div class="description">'' @ description suggestion @ ''</div>''),
        ind 16 (''<div class="code">'' @ code_snippet suggestion @ ''</div>'')]\<close>

text \<open>
  The rounding \<^verbatim>\<open>Math.round(suggestion.confidence_score * 100)\<close> and its conversion to
  text are floating-point operations of the runtime, taken as one parameter.
\<close>

definition explain_tail :: "(number \<Rightarrow> string) \<Rightarrow> FixSuggestion \<Rightarrow> string" where
  \<open>explain_tail round_percent suggestion =
     concat
       [ind 16 ''<div style="margin-top: 20px;">'',
        ind 20 (''<span class="agent">Agent: '' @ agent_source suggestion @ ''</span> | ''),
        ind 20 (''<span class="confidence">Confidence: ''
                  @ round_percent (confidence_score suggestion) @ ''%</span>''),
        ind 16 ''</div>'',
        ind 12 ''</body>'',
        ind 12 ''</html>'']
     @ replicate 8 CHR '' ''\<close>

definition explanation_html :: "(number \<Rightarrow> string) \<Rightarrow> FixSuggestion \<Rightarrow> string" where
  \<open>explanation_html round_percent suggestion =
     explain_head suggestion
     @ ind 16 (''<div class="explanation">'' @ explanation_text suggestion @ ''</div>'')
     @ explain_tail round_percent suggestion\<close>

definition explainFix :: "(number \<Rightarrow> string) \<Rightarrow> provider \<Rightarrow> FixSuggestion \<Rightarrow> outcome" where
  "explainFix round_percent s suggestion =
     ([CreateWebviewPanel ''bugfreeExplanation'' (''Fix Explanation: '' @ title suggestion),
       SetWebviewHtml (explanation_html round_percent suggestion)], s)"

section \<open>Commands registered by \<^verbatim>\<open>activate\<close>\<close>

text \<open>
  \<^verbatim>\<open>bugfree.analyzeError\<close>: the active editor, when there is one, gives the file name
  and the zero-based line of the cursor.
\<close>

definition analyzeError :: "provider \<Rightarrow> (string \<times> nat) option \<Rightarrow> outcome" where
  "analyzeError s editor =
     (case editor of
        None \<Rightarrow> ([ShowErrorMessage ''No active editor''], s)
      | Some (file, position_line) \<Rightarrow>
          if ws s \<and> isConnected s
          then ([WsSend (AnalyzeErrorMsg file (position_line + 1)),
                 ShowInformationMessage ''Analyzing error...''], s)
          else ([ShowErrorMessage ''Not connected to Bugfree system''], s))"

definition ignoreError :: "provider \<Rightarrow> ErrorContext \<Rightarrow> outcome" where
  "ignoreError s error =
     ([ShowInformationMessage (''Ignored error: '' @ error_message error)], s)"

definition error_details_html :: "(number \<Rightarrow> string) \<Rightarrow> ErrorContext \<Rightarrow> string" where
  \<open>error_details_html Number_toString error =
     [CHR 0x0A] @ concat
       [ind 16 ''<!DOCTYPE html>'',
        ind 16 ''<html>'',
        ind 16 ''<head>'',
        ind 20 ''<meta charset="UTF-8">'',
        ind 20 ''<title>Error Details</title>'',
        ind 20 ''<style>'',
        ind 24 ''body { font-family: -apple-system, BlinkMacSystemFont, 'Segoe UI', sans-serif; padding: 20px; }'',
        ind 24 ''.error-type { color: #dc3545; font-weight: bold; font-size: 18px; }'',
        ind 24 ''.error-message { margin: 10px 0; padding: 10px; background: #f8d7da; border-radius: 4px; }'',
        ind 24 ''.file-info { color: #007acc; margin: 10px 0; }'',
        ind 24 ''.timestamp { color: #666; font-size: 12px; }'',
        ind 20 ''</style>'',
        ind 16 ''</head>'',
        ind 16 ''<body>'',
        ind 20 (''<div class="error-type">'' @ error_type error @ ''</div>''),
        ind 20 (''<div class="error-message">'' @ error_message error @ ''</div>''),
        ind 20 (''<div class="file-info">File: '' @ file_path error @ '':''
                  @ Number_toString (line_number error) @ ''</div>''),
        ind 20 (''<div class="timestamp">Detected: '' @ timestamp error @ ''</div>''),
        ind 16 ''</body>'',
        ind 16 ''</html>'']
     @ replicate 12 CHR '' ''\<close>

definition showErrorDetails :: "(number \<Rightarrow> string) \<Rightarrow> provider \<Rightarrow> ErrorContext \<Rightarrow> outcome" where
  "showErrorDetails Number_toString s error =
     ([CreateWebviewPanel ''bugfreeErrorDetails'' (''Error Details: '' @ error_type error),
       SetWebviewHtml (error_details_html Number_toString error)], s)"

section \<open>The component as a transition system\<close>

text \<open>The functions the component takes from its JavaScript runtime.\<close>

record runtime =
  JSON_parse :: "string \<Rightarrow> jsval option"
  Number_toString :: "number \<Rightarrow> string"
  round_percent :: "number \<Rightarrow> string"
  WebSocket_throws :: "string \<Rightarrow> bool"

text \<open>
  Everything the host can deliver once the provider is constructed: the four socket
  events, the eight registered commands (the auto-start timer calls \<^verbatim>\<open>startSystem\<close>)
  and the disposal of the extension. \<^verbatim>\<open>getTreeItem\<close> and \<^verbatim>\<open>getChildren\<close> build tree
  items from the fields without assigning to any of them and are not events here.
  The listener of \<^verbatim>\<open>message\<close> catches whatever its body throws, so the \<open>Inl\<close> branch
  of its step is never taken (\<open>onMessage_returns\<close> below).
\<close>

datatype event =
    EvOpen
  | EvMessage string
  | EvClose
  | EvError
  | CmdStartSystem
  | CmdStopSystem
  | CmdAnalyzeError "(string \<times> nat) option"
  | CmdApplyFix FixSuggestion
  | CmdExplainFix FixSuggestion
  | CmdIgnoreError ErrorContext
  | CmdShowErrorDetails ErrorContext
  | CmdShowSuggestionDetails FixSuggestion
  | EvDispose

fun step :: "runtime \<Rightarrow> provider \<Rightarrow> event \<Rightarrow> outcome" where
  "step rt s EvOpen = onOpen s"
| "step rt s (EvMessage data) =
     (case onMessage (JSON_parse rt) s data of Inr r \<Rightarrow> r | Inl e \<Rightarrow> ([], s))"
| "step rt s EvClose = onClose s"
| "step rt s EvError = onError s"
| "step rt s CmdStartSystem = startSystem s"
| "step rt s CmdStopSystem = stopSystem s"
| "step rt s (CmdAnalyzeError editor) = analyzeError s editor"
| "step rt s (CmdApplyFix suggestion) = applyFix s suggestion"
| "step rt s (CmdExplainFix suggestion) = explainFix (round_percent rt) s suggestion"
| "step rt s (CmdIgnoreError error) = ignoreError s error"
| "step rt s (CmdShowErrorDetails error) = showErrorDetails (Number_toString rt) s error"
| "step rt s (CmdShowSuggestionDetails suggestion) = explainFix (round_percent rt) s suggestion"
| "step rt s EvDispose = dispose s"

fun run :: "runtime \<Rightarrow> provider \<Rightarrow> event list \<Rightarrow> provider" where
  "run rt s [] = s"
| "run rt s (ev # evs) = run rt (snd (step rt s ev)) evs"

section \<open>Sample inputs\<close>

text \<open>
  Concrete values on which the general statements below are instantiated: two
  suggestions, an error, a provider whose socket exists but has not opened yet, and
  a runtime whose functions are defined on the handful of inputs used here (its
  parser rejects every other payload).
\<close>

definition sample_suggestion :: FixSuggestion where
  "sample_suggestion =
     \<lparr>title = ''Add a None check'', description = ''Guard the attribute access'',
      code_snippet = ''if user is not None:'', confidence_score = Finite (9 / 10),
      agent_source = ''code_agent'', explanation = None\<rparr>"

definition sample_suggestion_explained :: FixSuggestion where
  "sample_suggestion_explained =
     sample_suggestion\<lparr>explanation := Some ''user may be None when the session expired''\<rparr>"

definition sample_error :: ErrorContext where
  "sample_error =
     \<lparr>error_type = ''AttributeError'', error_message = ''NoneType has no attribute name'',
      file_path = ''app.py'', line_number = Finite 12, severity = ''high'',
      timestamp = ''2024-01-01T00:00:00''\<rparr>"

definition sample_Number_toString :: "number \<Rightarrow> string" where
  "sample_Number_toString n =
     (if n = Finite 8003 then ''8003'' else if n = Finite 8000 then ''8000''
      else if n = Finite 9100 then ''9100'' else ''12'')"

definition waiting :: provider where
  "waiting = initial\<lparr>ws := True\<rparr>"

definition sample_parse :: "string \<Rightarrow> jsval option" where
  \<open>sample_parse data =
     (if data = ''null'' then Some JNull
      else if data = ''{"type":"heartbeat"}'' then Some (JObj [(''type'', JStr ''heartbeat'')])
      else if data = ''{"type":"error_detected","error":"boom"}''
        then Some (JObj [(''type'', JStr ''error_detected''), (''error'', JStr ''boom'')])
      else None)\<close>

definition sample_runtime :: runtime where
  "sample_runtime =
     \<lparr>JSON_parse = sample_parse, Number_toString = sample_Number_toString,
      round_percent = (\<lambda>n. ''90''), WebSocket_throws = (\<lambda>url. False)\<rparr>"

section \<open>Facts about the message handler\<close>

lemma get_prop_total:
  "get_prop message k = Inr v \<Longrightarrow> \<exists>w. get_prop message k' = Inr w"
  by (cases message) simp_all

lemma handle_error_detected:
  assumes "get_prop message ''type'' = Inr (JStr ''error_detected'')"
    and "get_prop message ''error'' = Inr v"
  shows "handleBugfreeMessage s message = Inr ([Fire], s\<lparr>currentErrors := currentErrors s @ [v]\<rparr>)"
  using assms by (simp add: handleBugfreeMessage_def refresh_def)

lemma handle_suggestions_ready:
  assumes "get_prop message ''type'' = Inr (JStr ''suggestions_ready'')"
    and "get_prop message ''suggestions'' = Inr v"
  shows "handleBugfreeMessage s message =
           Inr ([Fire], s\<lparr>currentSuggestions := js_or v (JArr [])\<rparr>)"
  using assms by (simp add: handleBugfreeMessage_def refresh_def)

lemma handle_other:
  assumes "get_prop message ''type'' = Inr t"
    and "t \<noteq> JStr ''error_detected''" and "t \<noteq> JStr ''suggestions_ready''"
  shows "handleBugfreeMessage s message = Inr ([], s)"
  using assms by (simp add: handleBugfreeMessage_def)

lemma handle_throws:
  assumes "get_prop message ''type'' = Inl e"
  shows "handleBugfreeMessage s message = Inl TypeError"
  using assms by (cases message) (simp_all add: handleBugfreeMessage_def)

lemma get_prop_throws_iff:
  "(\<exists>e. get_prop message k = Inl e) \<longleftrightarrow> message = JNull \<or> message = JUndefined"
  by (cases message) auto

lemma falsy_values:
  "\<not> truthy v \<longleftrightarrow>
     v \<in> {JUndefined, JNull, JBool False, JNum (Finite 0), JNum NegZero, JNum NaN, JStr []}"
  by (cases v rule: truthy.cases) auto

section \<open>Outbound actions while disconnected\<close>

lemma outbound_disconnected_no_writes:
  assumes "\<not> (ws s \<and> isConnected s)"
  shows "writes (fst (startSystem s)) = 0" and "writes (fst (stopSystem s)) = 0"
    and "writes (fst (applyFix s suggestion)) = 0"
  using assms by (auto simp: startSystem_def stopSystem_def applyFix_def writes_def)

lemma startSystem_disconnected_one_notice:
  assumes "\<not> (ws s \<and> isConnected s)"
  shows "notices (fst (startSystem s)) = 1"
  using assms by (auto simp: startSystem_def notices_def)

text \<open>
  C1. The claim: every outbound action (start, stop, apply fix) invoked while the
  connection is not open writes nothing to the socket and shows exactly one notice.
  The two lemmas above are the part that holds: none of the three writes, and
  \<^verbatim>\<open>startSystem\<close> shows its one notice. \<^verbatim>\<open>stopSystem\<close> and \<^verbatim>\<open>applyFix\<close> have no
  \<^verbatim>\<open>else\<close> branch: on a provider that is not connected they do nothing at all, so the
  number of notices is zero, not one.
\<close>

theorem stopSystem_silent_when_disconnected:
  "stopSystem waiting = ([], waiting) \<and> notices (fst (stopSystem waiting)) = 0
   \<and> applyFix waiting sample_suggestion = ([], waiting)
   \<and> notices (fst (applyFix waiting sample_suggestion)) = 0"
  by (simp add: stopSystem_def applyFix_def waiting_def initial_def notices_def)

section \<open>Inbound messages\<close>

text \<open>
  C2. For every state and every message tagged \<^verbatim>\<open>suggestions_ready\<close> that carries a
  suggestions array, the handler stores exactly that array as the suggestion
  sequence, notifies the tree views once, and the result does not depend on the
  suggestions held before.
\<close>

theorem suggestions_ready_replaces:
  assumes "get_prop message ''type'' = Inr (JStr ''suggestions_ready'')"
    and "get_prop message ''suggestions'' = Inr (JArr xs)"
  shows "handleBugfreeMessage s message = Inr ([Fire], s\<lparr>currentSuggestions := JArr xs\<rparr>)
         \<and> handleBugfreeMessage (s\<lparr>currentSuggestions := old\<rparr>) message
             = handleBugfreeMessage s message"
  using assms by (simp add: handle_suggestions_ready js_or_def)

theorem suggestions_ready_replaces_witness:
  "handleBugfreeMessage (initial\<lparr>currentSuggestions := JArr [JStr ''stale'']\<rparr>)
     (JObj [(''type'', JStr ''suggestions_ready''),
            (''suggestions'', JArr [JObj [(''title'', JStr ''Add a None check'')]])])
   = Inr ([Fire], initial\<lparr>currentSuggestions := JArr [JObj [(''title'', JStr ''Add a None check'')]]\<rparr>)"
  using suggestions_ready_replaces
    [of "JObj [(''type'', JStr ''suggestions_ready''),
            (''suggestions'', JArr [JObj [(''title'', JStr ''Add a None check'')]])]"
        "[JObj [(''title'', JStr ''Add a None check'')]]"
        "initial\<lparr>currentSuggestions := JArr [JStr ''stale'']\<rparr>" "JArr []"]
  by simp

text \<open>
  C3. For every state and every message tagged \<^verbatim>\<open>error_detected\<close>, the handler
  appends: the error sequence grows by exactly one, every earlier entry keeps its
  index and value, and the new last entry is \<^verbatim>\<open>message.error\<close>; the suggestions and
  the connected flag are untouched.
\<close>

theorem error_detected_appends:
  assumes "get_prop message ''type'' = Inr (JStr ''error_detected'')"
  shows "\<exists>v s'. get_prop message ''error'' = Inr v
           \<and> handleBugfreeMessage s message = Inr ([Fire], s')
           \<and> length (currentErrors s') = length (currentErrors s) + 1
           \<and> (\<forall>i < length (currentErrors s). currentErrors s' ! i = currentErrors s ! i)
           \<and> currentErrors s' ! length (currentErrors s) = v
           \<and> currentErrors s' = currentErrors s @ [v]
           \<and> currentSuggestions s' = currentSuggestions s
           \<and> isConnected s' = isConnected s"
proof -
  obtain v where v: "get_prop message ''error'' = Inr v"
    using get_prop_total [OF assms] by blast
  have "handleBugfreeMessage s message
          = Inr ([Fire], s\<lparr>currentErrors := currentErrors s @ [v]\<rparr>)"
    by (rule handle_error_detected [OF assms v])
  with v show ?thesis by (simp add: nth_append)
qed

theorem error_detected_appends_witness:
  "\<exists>s'. handleBugfreeMessage (initial\<lparr>currentErrors := [JStr ''first'']\<rparr>)
           (JObj [(''type'', JStr ''error_detected''), (''error'', JStr ''second'')])
         = Inr ([Fire], s')
       \<and> currentErrors s' = [JStr ''first'', JStr ''second'']"
  using error_detected_appends
    [of "JObj [(''type'', JStr ''error_detected''), (''error'', JStr ''second'')]"
        "initial\<lparr>currentErrors := [JStr ''first'']\<rparr>"]
  by auto

text \<open>
  C4. For every payload that \<^verbatim>\<open>JSON.parse\<close> rejects, the \<^verbatim>\<open>message\<close> listener returns
  normally, its only effect is one \<^verbatim>\<open>console.error\<close>, and the provider (both sequences
  included) is unchanged.
\<close>

theorem malformed_payload_logged_only:
  assumes "parse data = None"
  shows "onMessage parse s data = Inr ([ConsoleError ''Error parsing Bugfree message:''], s)"
  using assms by (simp add: onMessage_def try_catch_def)

theorem malformed_payload_logged_only_witness:
  \<open>onMessage sample_parse waiting ''{"type":''
     = Inr ([ConsoleError ''Error parsing Bugfree message:''], waiting)\<close>
  using malformed_payload_logged_only [of sample_parse \<open>''{"type":''\<close> waiting]
  by (simp add: sample_parse_def)

text \<open>
  C5. For every parsed message whose type tag is neither \<^verbatim>\<open>error_detected\<close> nor
  \<^verbatim>\<open>suggestions_ready\<close>, handling it leaves the whole provider unchanged (errors,
  suggestions, connected flag), shows no notice and does not fire the tree-change
  event. The one thing that can happen is the logged TypeError of a message that is
  \<^verbatim>\<open>null\<close>, which has no properties to read.
\<close>

theorem unrecognized_tag_ignored:
  assumes "parse data = Some message"
    and "get_prop message ''type'' \<noteq> Inr (JStr ''error_detected'')"
    and "get_prop message ''type'' \<noteq> Inr (JStr ''suggestions_ready'')"
  shows "handleBugfreeMessage s message
           = (if message = JNull \<or> message = JUndefined then Inl TypeError else Inr ([], s))
         \<and> onMessage parse s data
           = Inr (if message = JNull \<or> message = JUndefined
                  then [ConsoleError ''Error parsing Bugfree message:''] else [], s)
         \<and> notices (fst (projr (onMessage parse s data))) = 0
         \<and> Fire \<notin> set (fst (projr (onMessage parse s data)))"
proof (cases "get_prop message ''type''")
  case (Inl e)
  then have h: "handleBugfreeMessage s message = Inl TypeError" by (rule handle_throws)
  from Inl have "message = JNull \<or> message = JUndefined"
    using get_prop_throws_iff [of message "''type''"] by blast
  with h assms(1) show ?thesis by (simp add: onMessage_def try_catch_def notices_def)
next
  case (Inr t)
  with assms(2,3) have h: "handleBugfreeMessage s message = Inr ([], s)"
    by (simp add: handle_other)
  from Inr have "\<not> (message = JNull \<or> message = JUndefined)"
    using get_prop_throws_iff [of message "''type''"] by auto
  with h assms(1) show ?thesis by (simp add: onMessage_def try_catch_def notices_def)
qed

theorem unrecognized_tag_ignored_witness:
  \<open>onMessage sample_parse waiting ''{"type":"heartbeat"}'' = Inr ([], waiting)
   \<and> onMessage sample_parse waiting ''null''
       = Inr ([ConsoleError ''Error parsing Bugfree message:''], waiting)\<close>
  using unrecognized_tag_ignored
      [of sample_parse \<open>''{"type":"heartbeat"}''\<close> "JObj [(''type'', JStr ''heartbeat'')]" waiting]
    unrecognized_tag_ignored [of sample_parse "''null''" JNull waiting]
  by (simp add: sample_parse_def)

section \<open>Connection events\<close>

text \<open>
  C6, as stated, fails at the \<^verbatim>\<open>error\<close> event: the listener neither writes
  \<^verbatim>\<open>isConnected\<close> nor calls \<^verbatim>\<open>refresh\<close>. On a provider whose connection has opened, an
  \<^verbatim>\<open>error\<close> event leaves it marked connected and fires no tree-change event.
\<close>

theorem error_event_keeps_connected:
  "isConnected (snd (onError (snd (onOpen waiting))))
   \<and> Fire \<notin> set (fst (onError (snd (onOpen waiting))))"
  by (simp add: onError_def onOpen_def refresh_def waiting_def initial_def)

text \<open>
  C6, amended. After the \<^verbatim>\<open>open\<close> event the provider is marked connected, an
  information notice is shown and the tree views are refreshed; after the \<^verbatim>\<open>close\<close>
  event it is marked disconnected, a warning is shown and the tree views are
  refreshed; an \<^verbatim>\<open>error\<close> event is logged and shown as an error notice, and leaves the
  provider, its connected flag included, as it was, without a refresh.
\<close>

theorem connection_events:
  "onOpen s = ([ShowInformationMessage ''Connected to Bugfree system'', Fire],
               s\<lparr>isConnected := True\<rparr>)
   \<and> onClose s = ([ShowWarningMessage ''Disconnected from Bugfree system'', Fire],
                  s\<lparr>isConnected := False\<rparr>)
   \<and> onError s = ([ConsoleError ''WebSocket error:'',
                   ShowErrorMessage ''Failed to connect to Bugfree system''], s)"
  by (simp add: onOpen_def onClose_def onError_def refresh_def)

section \<open>The explain action\<close>

text \<open>
  C7. For every suggestion, \<^verbatim>\<open>explainFix\<close> sends nothing, leaves the provider unchanged,
  and opens one document view whose HTML holds the explanation text in its
  \<^verbatim>\<open>explanation\<close> division: the suggestion's own explanation when it has a non-empty
  one, and \<^verbatim>\<open>No explanation available\<close> when it has none (or an empty one).
\<close>

theorem explainFix_local:
  \<open>writes (fst (explainFix rp s suggestion)) = 0
   \<and> snd (explainFix rp s suggestion) = s
   \<and> (\<exists>pre post. fst (explainFix rp s suggestion)
          = [CreateWebviewPanel ''bugfreeExplanation'' (''Fix Explanation: '' @ title suggestion),
             SetWebviewHtml (pre @ ''<div class="explanation">'' @ explanation_text suggestion
                               @ ''</div>'' @ post)])
   \<and> (explanation suggestion = None
        \<longrightarrow> explanation_text suggestion = ''No explanation available'')
   \<and> (\<forall>e. explanation suggestion = Some e \<and> e \<noteq> []
        \<longrightarrow> explanation_text suggestion = e)
   \<and> (explanation suggestion = Some []
        \<longrightarrow> explanation_text suggestion = ''No explanation available'')\<close>
proof -
  have \<open>explanation_html rp suggestion
          = (explain_head suggestion @ replicate 16 CHR '' '')
            @ ''<div class="explanation">'' @ explanation_text suggestion @ ''</div>''
            @ ([CHR 0x0A] @ explain_tail rp suggestion)\<close>
    by (simp add: explanation_html_def ind_def)
  then have \<open>\<exists>pre post. explanation_html rp suggestion
          = pre @ ''<div class="explanation">'' @ explanation_text suggestion @ ''</div>'' @ post\<close>
    by blast
  then show ?thesis
    by (auto simp: explainFix_def writes_def explanation_text_def)
qed

theorem explainFix_local_witness:
  \<open>explanation_text sample_suggestion = ''No explanation available''
   \<and> explanation_text sample_suggestion_explained = ''user may be None when the session expired''
   \<and> explanation_text (sample_suggestion\<lparr>explanation := Some []\<rparr>) = ''No explanation available''
   \<and> snd (explainFix (round_percent sample_runtime) waiting sample_suggestion) = waiting
   \<and> writes (fst (explainFix (round_percent sample_runtime) waiting sample_suggestion)) = 0\<close>
  using explainFix_local [of "round_percent sample_runtime" waiting sample_suggestion]
    explainFix_local [of "round_percent sample_runtime" waiting sample_suggestion_explained]
    explainFix_local [of "round_percent sample_runtime" waiting
                         "sample_suggestion\<lparr>explanation := Some []\<rparr>"]
  by (simp add: sample_suggestion_def sample_suggestion_explained_def)

section \<open>Source and compiled output\<close>

lemma connect_url:
  "\<exists>rest. fst (connectToBugfree ts th cfg s)
      = NewWebSocket (''ws://'' @ config_get (serverHost cfg) ''localhost'' @ '':''
                       @ ts (config_get (serverPort cfg) (Finite 8003))) # rest"
  by (simp add: connectToBugfree_def Let_def)

lemma connect_out_url:
  "\<exists>rest. fst (connectToBugfree_out ts th cfg s)
      = NewWebSocket (''ws://'' @ config_get (serverHost cfg) ''localhost'' @ '':''
                       @ ts (config_get (serverPort cfg) (Finite 8000))) # rest"
  by (simp add: connectToBugfree_out_def Let_def)

lemma connect_out_as_source:
  "connectToBugfree_out ts th cfg s
     = connectToBugfree ts th (cfg\<lparr>serverPort := Some (config_get (serverPort cfg) (Finite 8000))\<rparr>) s"
  by (simp add: connectToBugfree_out_def connectToBugfree_def config_get_def)

lemma connect_port_explicit:
  "connectToBugfree ts th cfg s
     = connectToBugfree ts th (cfg\<lparr>serverPort := Some (config_get (serverPort cfg) (Finite 8003))\<rparr>) s"
  by (simp add: connectToBugfree_def config_get_def)

text \<open>
  C8. With a configured port, \<^verbatim>\<open>connectToBugfree\<close> of the compiled output does exactly
  what the TypeScript source does. Without one, each behaves as the source does with
  its own default written into the configuration: 8003 for the source, 8000 for the
  compiled output, and these are the ports in the URLs they open (so the two
  differ whenever the two numbers print differently). Both use \<^verbatim>\<open>localhost\<close> when no
  host is configured.
\<close>

theorem connect_source_vs_compiled:
  "(serverPort cfg \<noteq> None
      \<longrightarrow> connectToBugfree_out ts th cfg s = connectToBugfree ts th cfg s)
   \<and> (serverPort cfg = None
      \<longrightarrow> connectToBugfree ts th cfg s
            = connectToBugfree ts th (cfg\<lparr>serverPort := Some (Finite 8003)\<rparr>) s
        \<and> connectToBugfree_out ts th cfg s
            = connectToBugfree ts th (cfg\<lparr>serverPort := Some (Finite 8000)\<rparr>) s
        \<and> (\<exists>rest. fst (connectToBugfree ts th cfg s)
              = NewWebSocket (''ws://'' @ config_get (serverHost cfg) ''localhost'' @ '':''
                               @ ts (Finite 8003)) # rest)
        \<and> (\<exists>rest. fst (connectToBugfree_out ts th cfg s)
              = NewWebSocket (''ws://'' @ config_get (serverHost cfg) ''localhost'' @ '':''
                               @ ts (Finite 8000)) # rest))
   \<and> (serverHost cfg = None
      \<longrightarrow> (\<exists>port rest. fst (connectToBugfree ts th cfg s)
              = NewWebSocket (''ws://localhost:'' @ port) # rest)
        \<and> (\<exists>port rest. fst (connectToBugfree_out ts th cfg s)
              = NewWebSocket (''ws://localhost:'' @ port) # rest))
   \<and> (serverPort cfg = None \<and> ts (Finite 8003) \<noteq> ts (Finite 8000)
      \<longrightarrow> connectToBugfree_out ts th cfg s \<noteq> connectToBugfree ts th cfg s)"
proof (intro conjI impI)
  assume "serverPort cfg \<noteq> None"
  then obtain p where "serverPort cfg = Some p" by blast
  then show "connectToBugfree_out ts th cfg s = connectToBugfree ts th cfg s"
    by (simp add: connectToBugfree_out_def connectToBugfree_def config_get_def)
next
  assume "serverPort cfg = None"
  then show "connectToBugfree ts th cfg s
               = connectToBugfree ts th (cfg\<lparr>serverPort := Some (Finite 8003)\<rparr>) s"
    using connect_port_explicit [of ts th cfg s] by (simp add: config_get_def)
next
  assume "serverPort cfg = None"
  then show "connectToBugfree_out ts th cfg s
               = connectToBugfree ts th (cfg\<lparr>serverPort := Some (Finite 8000)\<rparr>) s"
    using connect_out_as_source [of ts th cfg s] by (simp add: config_get_def)
next
  assume "serverPort cfg = None"
  then have "config_get (serverPort cfg) (Finite 8003) = Finite 8003"
    by (simp add: config_get_def)
  with connect_url [of ts th cfg s]
  show "\<exists>rest. fst (connectToBugfree ts th cfg s)
          = NewWebSocket (''ws://'' @ config_get (serverHost cfg) ''localhost'' @ '':''
                           @ ts (Finite 8003)) # rest"
    by simp
next
  assume "serverPort cfg = None"
  then have "config_get (serverPort cfg) (Finite 8000) = Finite 8000"
    by (simp add: config_get_def)
  with connect_out_url [of ts th cfg s]
  show "\<exists>rest. fst (connectToBugfree_out ts th cfg s)
          = NewWebSocket (''ws://'' @ config_get (serverHost cfg) ''localhost'' @ '':''
                           @ ts (Finite 8000)) # rest"
    by simp
next
  assume "serverHost cfg = None"
  then have h: "config_get (serverHost cfg) ''localhost'' = ''localhost''"
    by (simp add: config_get_def)
  obtain rest where "fst (connectToBugfree ts th cfg s)
      = NewWebSocket (''ws://'' @ config_get (serverHost cfg) ''localhost'' @ '':''
                       @ ts (config_get (serverPort cfg) (Finite 8003))) # rest"
    using connect_url by blast
  with h have "fst (connectToBugfree ts th cfg s)
      = NewWebSocket (''ws://localhost:'' @ ts (config_get (serverPort cfg) (Finite 8003))) # rest"
    by simp
  then show "\<exists>port rest. fst (connectToBugfree ts th cfg s)
      = NewWebSocket (''ws://localhost:'' @ port) # rest"
    by blast
next
  assume "serverHost cfg = None"
  then have h: "config_get (serverHost cfg) ''localhost'' = ''localhost''"
    by (simp add: config_get_def)
  obtain rest where "fst (connectToBugfree_out ts th cfg s)
      = NewWebSocket (''ws://'' @ config_get (serverHost cfg) ''localhost'' @ '':''
                       @ ts (config_get (serverPort cfg) (Finite 8000))) # rest"
    using connect_out_url by blast
  with h have "fst (connectToBugfree_out ts th cfg s)
      = NewWebSocket (''ws://localhost:'' @ ts (config_get (serverPort cfg) (Finite 8000))) # rest"
    by simp
  then show "\<exists>port rest. fst (connectToBugfree_out ts th cfg s)
      = NewWebSocket (''ws://localhost:'' @ port) # rest"
    by blast
next
  assume a: "serverPort cfg = None \<and> ts (Finite 8003) \<noteq> ts (Finite 8000)"
  then have p: "config_get (serverPort cfg) (Finite 8003) = Finite 8003"
    "config_get (serverPort cfg) (Finite 8000) = Finite 8000"
    by (simp_all add: config_get_def)
  obtain r1 where u1: "fst (connectToBugfree ts th cfg s)
      = NewWebSocket (''ws://'' @ config_get (serverHost cfg) ''localhost'' @ '':''
                       @ ts (config_get (serverPort cfg) (Finite 8003))) # r1"
    using connect_url by blast
  obtain r2 where u2: "fst (connectToBugfree_out ts th cfg s)
      = NewWebSocket (''ws://'' @ config_get (serverHost cfg) ''localhost'' @ '':''
                       @ ts (config_get (serverPort cfg) (Finite 8000))) # r2"
    using connect_out_url by blast
  from a p u1 u2 have "fst (connectToBugfree_out ts th cfg s) \<noteq> fst (connectToBugfree ts th cfg s)"
    by auto
  then show "connectToBugfree_out ts th cfg s \<noteq> connectToBugfree ts th cfg s"
    by auto
qed

theorem connect_source_vs_compiled_witness:
  "connectToBugfree_out sample_Number_toString (\<lambda>url. False)
       \<lparr>serverHost = Some ''10.0.0.5'', serverPort = Some (Finite 9100)\<rparr> initial
     = connectToBugfree sample_Number_toString (\<lambda>url. False)
       \<lparr>serverHost = Some ''10.0.0.5'', serverPort = Some (Finite 9100)\<rparr> initial
   \<and> (\<exists>rest. fst (connectToBugfree sample_Number_toString (\<lambda>url. False)
                     \<lparr>serverHost = None, serverPort = None\<rparr> initial)
          = NewWebSocket ''ws://localhost:8003'' # rest)
   \<and> (\<exists>rest. fst (connectToBugfree_out sample_Number_toString (\<lambda>url. False)
                     \<lparr>serverHost = None, serverPort = None\<rparr> initial)
          = NewWebSocket ''ws://localhost:8000'' # rest)"
proof -
  have a: "serverPort \<lparr>serverHost = Some ''10.0.0.5'', serverPort = Some (Finite 9100)\<rparr> \<noteq> None"
    by simp
  have b: "serverPort \<lparr>serverHost = None, serverPort = None\<rparr> = None" by simp
  note t1 = connect_source_vs_compiled
      [of "\<lparr>serverHost = Some ''10.0.0.5'', serverPort = Some (Finite 9100)\<rparr>"
          sample_Number_toString "\<lambda>url. False" initial]
  note t2 = connect_source_vs_compiled
      [of "\<lparr>serverHost = None, serverPort = None\<rparr>"
          sample_Number_toString "\<lambda>url. False" initial]
  from t1 a have c1: "connectToBugfree_out sample_Number_toString (\<lambda>url. False)
       \<lparr>serverHost = Some ''10.0.0.5'', serverPort = Some (Finite 9100)\<rparr> initial
     = connectToBugfree sample_Number_toString (\<lambda>url. False)
       \<lparr>serverHost = Some ''10.0.0.5'', serverPort = Some (Finite 9100)\<rparr> initial"
    by blast
  from t2 b have c2: "\<exists>rest. fst (connectToBugfree sample_Number_toString (\<lambda>url. False)
         \<lparr>serverHost = None, serverPort = None\<rparr> initial)
      = NewWebSocket (''ws://'' @ config_get (serverHost \<lparr>serverHost = None, serverPort = None\<rparr>)
           ''localhost'' @ '':'' @ sample_Number_toString (Finite 8003)) # rest"
    by blast
  from t2 b have c3: "\<exists>rest. fst (connectToBugfree_out sample_Number_toString (\<lambda>url. False)
         \<lparr>serverHost = None, serverPort = None\<rparr> initial)
      = NewWebSocket (''ws://'' @ config_get (serverHost \<lparr>serverHost = None, serverPort = None\<rparr>)
           ''localhost'' @ '':'' @ sample_Number_toString (Finite 8000)) # rest"
    by blast
  from c1 c2 c3 show ?thesis
    by (simp add: config_get_def sample_Number_toString_def)
qed

section \<open>The error sequence over time\<close>

lemma handle_prefix:
  assumes "handleBugfreeMessage s message = Inr (es, s')"
  shows "prefix (currentErrors s) (currentErrors s')"
  using assms
  by (auto simp: handleBugfreeMessage_def refresh_def split: sum.splits if_splits)

lemma onMessage_returns: "\<exists>es s'. onMessage parse s data = Inr (es, s')"
  by (auto simp: onMessage_def try_catch_def split: option.splits sum.splits)

lemma onMessage_prefix:
  assumes "onMessage parse s data = Inr (es, s')"
  shows "prefix (currentErrors s) (currentErrors s')"
  using assms handle_prefix
  by (auto simp: onMessage_def try_catch_def split: option.splits sum.splits)

lemma step_prefix: "prefix (currentErrors s) (currentErrors (snd (step rt s ev)))"
proof (cases ev)
  case (EvMessage data)
  obtain es s' where r: "onMessage (JSON_parse rt) s data = Inr (es, s')"
    using onMessage_returns by blast
  with onMessage_prefix [OF r] EvMessage show ?thesis by simp
qed (simp_all add: onOpen_def onClose_def onError_def refresh_def startSystem_def
       stopSystem_def analyzeError_def applyFix_def explainFix_def ignoreError_def
       showErrorDetails_def dispose_def split: option.splits prod.splits)

lemma run_prefix: "prefix (currentErrors s) (currentErrors (run rt s evs))"
proof (induction evs arbitrary: s)
  case Nil
  show ?case by simp
next
  case (Cons ev evs)
  have "prefix (currentErrors s) (currentErrors (snd (step rt s ev)))"
    by (rule step_prefix)
  also have "prefix \<dots> (currentErrors (run rt (snd (step rt s ev)) evs))"
    by (rule Cons.IH)
  finally show ?case by simp
qed

text \<open>
  C9. Over every sequence of events and commands the error sequence only grows at
  its end: the sequence before is a prefix of the sequence after, so nothing stored
  is removed, moved or rewritten and the length never decreases. The
  \<^verbatim>\<open>bugfree.ignoreError\<close> command shows one notice and returns the provider as it was.
\<close>

theorem errors_append_only:
  "prefix (currentErrors s) (currentErrors (run rt s evs))
   \<and> length (currentErrors s) \<le> length (currentErrors (run rt s evs))
   \<and> ignoreError s error = ([ShowInformationMessage (''Ignored error: '' @ error_message error)], s)
   \<and> step rt s (CmdIgnoreError error) = ignoreError s error"
  using run_prefix [of s rt evs]
  by (simp add: ignoreError_def prefix_length_le)

theorem errors_append_only_witness:
  \<open>currentErrors
      (run sample_runtime (waiting\<lparr>currentErrors := [JStr ''earlier'']\<rparr>)
         [EvOpen, EvMessage ''{"type":"error_detected","error":"boom"}'',
          CmdIgnoreError sample_error, EvMessage ''{"type":'', EvError, EvClose])
     = [JStr ''earlier'', JStr ''boom'']
   \<and> prefix [JStr ''earlier'']
       (currentErrors
          (run sample_runtime (waiting\<lparr>currentErrors := [JStr ''earlier'']\<rparr>)
             [EvOpen, EvMessage ''{"type":"error_detected","error":"boom"}'',
              CmdIgnoreError sample_error, EvMessage ''{"type":'', EvError, EvClose]))\<close>
  using errors_append_only
      [of \<open>waiting\<lparr>currentErrors := [JStr ''earlier'']\<rparr>\<close> sample_runtime
          \<open>[EvOpen, EvMessage ''{"type":"error_detected","error":"boom"}'',
            CmdIgnoreError sample_error, EvMessage ''{"type":'', EvError, EvClose]\<close>
          sample_error]
  by (simp add: sample_runtime_def sample_parse_def onOpen_def onClose_def onError_def
        onMessage_def try_catch_def handleBugfreeMessage_def refresh_def ignoreError_def)

section \<open>Suggestions without an array\<close>

text \<open>
  C10. For every message tagged \<^verbatim>\<open>suggestions_ready\<close> whose \<^verbatim>\<open>suggestions\<close> field is
  absent, \<^verbatim>\<open>null\<close> or any other falsy value, the handler returns normally and the
  suggestion sequence becomes the empty array.
\<close>

theorem suggestions_ready_without_array:
  assumes "get_prop message ''type'' = Inr (JStr ''suggestions_ready'')"
    and "get_prop message ''suggestions'' = Inr v"
    and "\<not> truthy v"
  shows "handleBugfreeMessage s message = Inr ([Fire], s\<lparr>currentSuggestions := JArr []\<rparr>)"
  using assms by (simp add: handle_suggestions_ready js_or_def)

theorem suggestions_ready_without_array_witness:
  "handleBugfreeMessage (initial\<lparr>currentSuggestions := JArr [JStr ''stale'']\<rparr>)
       (JObj [(''type'', JStr ''suggestions_ready'')])
     = Inr ([Fire], initial\<lparr>currentSuggestions := JArr []\<rparr>)
   \<and> handleBugfreeMessage (initial\<lparr>currentSuggestions := JArr [JStr ''stale'']\<rparr>)
       (JObj [(''type'', JStr ''suggestions_ready''), (''suggestions'', JNull)])
     = Inr ([Fire], initial\<lparr>currentSuggestions := JArr []\<rparr>)
   \<and> handleBugfreeMessage (initial\<lparr>currentSuggestions := JArr [JStr ''stale'']\<rparr>)
       (JObj [(''type'', JStr ''suggestions_ready''), (''suggestions'', JNum (Finite 0))])
     = Inr ([Fire], initial\<lparr>currentSuggestions := JArr []\<rparr>)"
  using suggestions_ready_without_array
      [of "JObj [(''type'', JStr ''suggestions_ready'')]" JUndefined
          "initial\<lparr>currentSuggestions := JArr [JStr ''stale'']\<rparr>"]
    suggestions_ready_without_array
      [of "JObj [(''type'', JStr ''suggestions_ready''), (''suggestions'', JNull)]" JNull
          "initial\<lparr>currentSuggestions := JArr [JStr ''stale'']\<rparr>"]
    suggestions_ready_without_array
      [of "JObj [(''type'', JStr ''suggestions_ready''), (''suggestions'', JNum (Finite 0))]"
          "JNum (Finite 0)" "initial\<lparr>currentSuggestions := JArr [JStr ''stale'']\<rparr>"]
  by simp

end
